theory Spec2Isabelle
  imports Main "HOL-Library.Sublist"
begin

section \<open>Python text, dictionaries and the pieces of the standard library used\<close>

text \<open>
  A Python \<open>str\<close> is a sequence of Unicode code points; the handler compares, cuts and
  joins such sequences, and its tables hold Devanagari next to ASCII, so a string is
  modelled as the list of its code points.  \<open>asc\<close> reads an ASCII literal.
\<close>

type_synonym ustr = "nat list"

definition asc :: "string \<Rightarrow> ustr" where
  "asc s = map of_char s"

text \<open>
  What Python knows about a code point outside ASCII comes from the Unicode character
  database of the interpreter.  The handler depends on two of its columns: the full
  lower-case mapping used by \<open>str.lower\<close> and the alphanumeric class used by \<open>\w\<close>.  Both
  are taken as a parameter, so that every statement below holds for each version of the
  database.  Inside ASCII the two columns are fixed and written out.  (\<open>str.lower\<close> has one
  rule that looks at the neighbours of a character, the final form of the Greek capital
  sigma; it is not modelled, the mapping is applied character by character.)
\<close>

record unicode =
  lower_full :: "nat \<Rightarrow> ustr"
  alnum :: "nat \<Rightarrow> bool"

definition lower_char :: "unicode \<Rightarrow> nat \<Rightarrow> ustr" where
  "lower_char U c =
     (if c < 128 then [if 65 \<le> c \<and> c \<le> 90 then c + 32 else c] else lower_full U c)"

definition py_lower :: "unicode \<Rightarrow> ustr \<Rightarrow> ustr" where
  "py_lower U s = concat (map (lower_char U) s)"

text \<open>\<open>str.isspace\<close> of one character; \<open>str.split()\<close> and the pattern \<open>\s\<close> both use it.\<close>

definition is_space :: "nat \<Rightarrow> bool" where
  "is_space c \<longleftrightarrow>
     (9 \<le> c \<and> c \<le> 13) \<or> (28 \<le> c \<and> c \<le> 32) \<or> c = 0x85 \<or> c = 0xA0 \<or> c = 0x1680 \<or>
     (0x2000 \<le> c \<and> c \<le> 0x200A) \<or> c = 0x2028 \<or> c = 0x2029 \<or> c = 0x202F \<or>
     c = 0x205F \<or> c = 0x3000"

text \<open>The class \<open>\w\<close> of a Unicode pattern: alphanumeric, or the underscore.\<close>

definition is_word :: "unicode \<Rightarrow> nat \<Rightarrow> bool" where
  "is_word U c \<longleftrightarrow>
     (if c < 128 then (48 \<le> c \<and> c \<le> 57) \<or> (65 \<le> c \<and> c \<le> 90) \<or> (97 \<le> c \<and> c \<le> 122) \<or> c = 95
      else alnum U c)"

text \<open>\<open>sub in s\<close> on strings: \<open>sub\<close> occurs in \<open>s\<close> as a run of consecutive characters.\<close>

fun py_in :: "'a list \<Rightarrow> 'a list \<Rightarrow> bool" where
  "py_in sub [] = (sub = [])"
| "py_in sub (c # s) = (prefix sub (c # s) \<or> py_in sub s)"

text \<open>\<open>s.split()\<close>: the maximal runs of characters that are not white space.\<close>

fun split_from :: "ustr \<Rightarrow> ustr \<Rightarrow> ustr list" where
  "split_from w [] = (if w = [] then [] else [w])"
| "split_from w (c # s) =
     (if is_space c then (if w = [] then [] else [w]) @ split_from [] s
      else split_from (w @ [c]) s)"

definition py_split :: "ustr \<Rightarrow> ustr list" where
  "py_split s = split_from [] s"

text \<open>\<open>sep.join(ws)\<close>.\<close>

fun py_join :: "ustr \<Rightarrow> ustr list \<Rightarrow> ustr" where
  "py_join sep [] = []"
| "py_join sep [w] = w"
| "py_join sep (w # v # ws) = w @ sep @ py_join sep (v # ws)"

text \<open>
  \<open>s.replace(old, new)\<close>: the occurrences of \<open>old\<close> are found from left to right, each
  search starting behind the previous occurrence, and compared character by character, upper and lower case being different.  With an
  empty \<open>old\<close> Python puts \<open>new\<close> before every character and at the end.
\<close>

fun replace_from :: "'a list \<Rightarrow> 'a list \<Rightarrow> 'a list \<Rightarrow> 'a list" where
  "replace_from old new [] = []"
| "replace_from old new (c # s) =
     (if prefix old (c # s) then new @ replace_from old new (drop (length old - 1) s)
      else c # replace_from old new s)"

definition py_replace :: "'a list \<Rightarrow> 'a list \<Rightarrow> 'a list \<Rightarrow> 'a list" where
  "py_replace s old new =
     (if old = [] then new @ concat (map (\<lambda>c. c # new) s) else replace_from old new s)"

text \<open>
  A dictionary is the list of its items in the order of insertion, which is the order in
  which Python iterates over it; the keys of such a list are distinct.
\<close>

datatype py_error = KeyError

text \<open>\<open>k in d\<close> and \<open>d[k]\<close>; the second raises \<open>KeyError\<close> on a missing key.\<close>

definition dict_has :: "('k \<times> 'v) list \<Rightarrow> 'k \<Rightarrow> bool" where
  "dict_has d k \<longleftrightarrow> k \<in> set (map fst d)"

definition dict_index :: "('k \<times> 'v) list \<Rightarrow> 'k \<Rightarrow> py_error + 'v" where
  "dict_index d k = (case map_of d k of None \<Rightarrow> Inl KeyError | Some v \<Rightarrow> Inr v)"

section \<open>The tables of \<open>SmartQueryHandler.__init__\<close>\<close>

text \<open>
  Each table is the value of the dictionary display in the source.  Where a display writes a
  key more than once, Python keeps one item, at the place of the first writing and with the
  value of the last: \<open>bhusawal\<close> in \<open>region_mappings\<close>, and \<open>kuthun\<close>, \<open>jameen\<close>,
  \<open>bhukhand\<close>, \<open>kendr\<close>, \<open>prant\<close>, \<open>hoi\<close> (same value each time), \<open>kiti\<close> (\<open>how many\<close>
  replaces \<open>how much\<close>) and \<open>nahi\<close> (\<open>not\<close> replaces \<open>no\<close>) in
  \<open>marathi_transliteration_tokens\<close>.  The Devanagari entries are given by their code points.
\<close>

definition region_mappings :: "(ustr \<times> ustr) list" where
  "region_mappings =
    [(asc ''pune'', asc ''RO PUNE-I RO PUNE-II''),
     (asc ''punya'', asc ''RO PUNE-I RO PUNE-II''),
     (asc ''puny'', asc ''RO PUNE-I RO PUNE-II''),
     (asc ''chandrapur'', asc ''RO Chandrapur''),
     (asc ''baramati'', asc ''RO Baramati''),
     (asc ''nagpur'', asc ''RO NAGPUR''),
     (asc ''ratnagiri'', asc ''RO RATNAGIRI''),
     (asc ''aurangabad'', asc ''RO AURANGABAD''),
     (asc ''mumbai'', asc ''RO THANE-I RO THANE-II''),
     (asc ''thane'', asc ''RO THANE-I RO THANE-II''),
     (asc ''amravati'', asc ''RO AMRAVATI''),
     (asc ''dhule'', asc ''RO DHULE''),
     (asc ''jalgaon'', asc ''RO Jalgaon''),
     (asc ''bhusaval'', asc ''RO Jalgaon''),
     (asc ''bhusawal'', asc ''RO Jalgaon''),
     (asc ''bhusawad'', asc ''RO Jalgaon''),
     ([0x92A, 0x941, 0x923, 0x947], asc ''RO PUNE-I RO PUNE-II''),
     ([0x91A, 0x902, 0x926, 0x94D, 0x930, 0x92A, 0x942, 0x930], asc ''RO Chandrapur''),
     ([0x92C, 0x93E, 0x930, 0x93E, 0x92E, 0x924, 0x940], asc ''RO Baramati''),
     ([0x928, 0x93E, 0x917, 0x92A, 0x942, 0x930], asc ''RO NAGPUR''),
     ([0x930, 0x924, 0x94D, 0x928, 0x93E, 0x917, 0x93F, 0x930, 0x940], asc ''RO RATNAGIRI''),
     ([0x914, 0x930, 0x902, 0x917, 0x93E, 0x92C, 0x93E, 0x926], asc ''RO AURANGABAD''),
     ([0x92E, 0x941, 0x902, 0x92C, 0x908], asc ''RO THANE-I RO THANE-II''),
     ([0x920, 0x93E, 0x923, 0x947], asc ''RO THANE-I RO THANE-II''),
     ([0x905, 0x92E, 0x930, 0x93E, 0x935, 0x924, 0x940], asc ''RO AMRAVATI''),
     ([0x927, 0x941, 0x933, 0x947], asc ''RO DHULE''),
     ([0x91C, 0x933, 0x917, 0x93E, 0x935], asc ''RO Jalgaon''),
     ([0x92D, 0x941, 0x938, 0x93E, 0x935, 0x933], asc ''RO Jalgaon''),
     ([0x92D, 0x941, 0x938, 0x93E, 0x935, 0x932], asc ''RO Jalgaon'')]"

definition area_to_ro_mappings :: "(ustr \<times> ustr) list" where
  "area_to_ro_mappings =
    [(asc ''bhusaval'', asc ''RO Jalgaon''),
     (asc ''bhusawal'', asc ''RO Jalgaon''),
     (asc ''bhusawad'', asc ''RO Jalgaon''),
     (asc ''talegaon'', asc ''RO PUNE-I''),
     (asc ''chakan'', asc ''RO PUNE-I''),
     (asc ''hinjawadi'', asc ''RO PUNE-II''),
     (asc ''rajiv gandhi infotech park'', asc ''RO PUNE-II''),
     (asc ''wardha'', asc ''RO Chandrapur''),
     (asc ''addl. chandrapur'', asc ''RO Chandrapur''),
     (asc ''baramati'', asc ''RO Baramati''),
     (asc ''nagpur'', asc ''RO NAGPUR''),
     (asc ''borgaon meghe'', asc ''RO NAGPUR''),
     (asc ''bhivapur'', asc ''RO NAGPUR''),
     (asc ''ratnagiri'', asc ''RO RATNAGIRI''),
     (asc ''aurangabad'', asc ''RO AURANGABAD''),
     (asc ''thane'', asc ''RO THANE-I''),
     (asc ''ambarnath'', asc ''RO THANE-II''),
     (asc ''kalyan'', asc ''RO THANE-II''),
     (asc ''bhiwandi'', asc ''RO THANE-II''),
     (asc ''amravati'', asc ''RO AMRAVATI''),
     (asc ''ghatanji'', asc ''RO AMRAVATI''),
     (asc ''bhatkuli'', asc ''RO AMRAVATI''),
     (asc ''dhule'', asc ''RO DHULE''),
     (asc ''nandurbar'', asc ''RO DHULE''),
     (asc ''bhaler'', asc ''RO DHULE'')]"

definition property_mappings :: "(ustr \<times> ustr) list" where
  "property_mappings =
    [(asc ''residential'', asc ''Residential''),
     (asc ''commercial'', asc ''Commercial''),
     (asc ''industrial'', asc ''Industrial''),
     (asc ''plots'', asc ''Industrial''),
     (asc ''plot'', asc ''Industrial''),
     (asc ''land'', asc ''Industrial''),
     (asc ''price'', asc ''Industrial''),
     (asc ''rates'', asc ''Industrial''),
     ([0x914, 0x926, 0x94D, 0x92F, 0x94B, 0x917, 0x93F, 0x915], asc ''Industrial''),
     ([0x915, 0x949, 0x92E, 0x930, 0x94D, 0x936, 0x93F, 0x92F, 0x932], asc ''Commercial''),
     ([0x930, 0x939, 0x93F, 0x935, 0x93E, 0x938, 0x940], asc ''Residential''),
     ([0x92A, 0x94D, 0x932, 0x949, 0x91F], asc ''Industrial''),
     ([0x91C, 0x92E, 0x940, 0x928], asc ''Industrial''),
     ([0x915, 0x93F, 0x902, 0x92E, 0x924], asc ''Industrial''),
     ([0x926, 0x930], asc ''Industrial'')]"

definition mixed_language_mappings :: "(ustr \<times> ustr) list" where
  "mixed_language_mappings =
    [(asc ''punya'', asc ''pune''),
     (asc ''puny'', asc ''pune''),
     (asc ''plots'', asc ''plots''),
     (asc ''aahet'', asc ''are''),
     (asc ''aahe'', asc ''are''),
     (asc ''ka'', asc ''what''),
     (asc ''kay'', asc ''what''),
     (asc ''price'', asc ''price''),
     (asc ''kimi'', asc ''price''),
     (asc ''kimti'', asc ''price''),
     (asc ''dar'', asc ''rate''),
     (asc ''rate'', asc ''rate''),
     (asc ''rates'', asc ''rates'')]"

definition marathi_transliteration_tokens :: "(ustr \<times> ustr) list" where
  "marathi_transliteration_tokens =
    [(asc ''ka'', asc ''what''),
     (asc ''kay'', asc ''what''),
     (asc ''kuthe'', asc ''where''),
     (asc ''kase'', asc ''how''),
     (asc ''kadhi'', asc ''when''),
     (asc ''kiti'', asc ''how many''),
     (asc ''koni'', asc ''who''),
     (asc ''kashi'', asc ''how''),
     (asc ''kashala'', asc ''why''),
     (asc ''kuthun'', asc ''from where''),
     (asc ''madhe'', asc ''in''),
     (asc ''madhye'', asc ''in''),
     (asc ''madhyat'', asc ''in''),
     (asc ''var'', asc ''on''),
     (asc ''la'', asc ''to''),
     (asc ''hun'', asc ''from''),
     (asc ''pasun'', asc ''from''),
     (asc ''sathi'', asc ''for''),
     (asc ''barobar'', asc ''with''),
     (asc ''sobat'', asc ''with''),
     (asc ''aahet'', asc ''are''),
     (asc ''aahe'', asc ''are''),
     (asc ''ahe'', asc ''is''),
     (asc ''nahi'', asc ''not''),
     (asc ''hoi'', asc ''yes''),
     (asc ''dya'', asc ''give''),
     (asc ''dakhav'', asc ''show''),
     (asc ''shodh'', asc ''find''),
     (asc ''vach'', asc ''read''),
     (asc ''sang'', asc ''tell''),
     (asc ''bol'', asc ''say''),
     (asc ''kar'', asc ''do''),
     (asc ''ghya'', asc ''take''),
     (asc ''de'', asc ''give''),
     (asc ''le'', asc ''take''),
     (asc ''jameen'', asc ''land''),
     (asc ''bhumi'', asc ''land''),
     (asc ''plot'', asc ''plot''),
     (asc ''plots'', asc ''plots''),
     (asc ''bhukhand'', asc ''plot''),
     (asc ''sthal'', asc ''place''),
     (asc ''jaga'', asc ''place''),
     (asc ''sthala'', asc ''place''),
     (asc ''kimti'', asc ''price''),
     (asc ''kimmat'', asc ''price''),
     (asc ''dar'', asc ''rate''),
     (asc ''mulya'', asc ''value''),
     (asc ''kharcha'', asc ''cost''),
     (asc ''paisa'', asc ''money''),
     (asc ''rupya'', asc ''rupees''),
     (asc ''rs'', asc ''rupees''),
     (asc ''rupees'', asc ''rupees''),
     (asc ''motha'', asc ''big''),
     (asc ''lahan'', asc ''small''),
     (asc ''swast'', asc ''cheap''),
     (asc ''mahag'', asc ''expensive''),
     (asc ''jast'', asc ''more''),
     (asc ''kami'', asc ''less''),
     (asc ''sagla'', asc ''all''),
     (asc ''ek'', asc ''one''),
     (asc ''don'', asc ''two''),
     (asc ''teen'', asc ''three''),
     (asc ''char'', asc ''four''),
     (asc ''pach'', asc ''five''),
     (asc ''aata'', asc ''now''),
     (asc ''aaj'', asc ''today''),
     (asc ''kal'', asc ''yesterday''),
     (asc ''udya'', asc ''tomorrow''),
     (asc ''parso'', asc ''day after''),
     (asc ''upalabdh'', asc ''available''),
     (asc ''mila'', asc ''got''),
     (asc ''nako'', asc ''no''),
     (asc ''kendr'', asc ''center''),
     (asc ''karya'', asc ''work''),
     (asc ''karyalay'', asc ''office''),
     (asc ''prant'', asc ''region''),
     (asc ''ani'', asc ''and''),
     (asc ''pan'', asc ''but''),
     (asc ''ki'', asc ''or''),
     (asc ''mhanun'', asc ''therefore''),
     (asc ''karan'', asc ''because''),
     (asc ''jari'', asc ''even if''),
     (asc ''tar'', asc ''then''),
     (asc ''maga'', asc ''then''),
     (asc ''nantar'', asc ''after''),
     (asc ''adhi'', asc ''before''),
     (asc ''krupaya'', asc ''please''),
     (asc ''dhanyawad'', asc ''thank you''),
     (asc ''maaf'', asc ''sorry''),
     (asc ''namaskar'', asc ''hello''),
     (asc ''namaste'', asc ''hello'')]"

definition semantic_synonyms :: "(ustr \<times> ustr list) list" where
  "semantic_synonyms =
    [(asc ''pune'', [asc ''punya'', asc ''puny'', asc ''pune'', [0x92A, 0x941, 0x923, 0x947]]),
     (asc ''mumbai'', [asc ''mumbai'', asc ''bombay'', [0x92E, 0x941, 0x902, 0x92C, 0x908]]),
     (asc ''bhusaval'', [asc ''bhusaval'', asc ''bhusawal'', asc ''bhusawad'', [0x92D, 0x941, 0x938, 0x93E, 0x935, 0x933]]),
     (asc ''jalgaon'', [asc ''jalgaon'', asc ''jalgon'', asc ''jalgaun'', [0x91C, 0x933, 0x917, 0x93E, 0x935]]),
     (asc ''nagpur'', [asc ''nagpur'', [0x928, 0x93E, 0x917, 0x92A, 0x942, 0x930]]),
     (asc ''aurangabad'', [asc ''aurangabad'', [0x914, 0x930, 0x902, 0x917, 0x93E, 0x92C, 0x93E, 0x926]]),
     (asc ''thane'', [asc ''thane'', [0x920, 0x93E, 0x923, 0x947]]),
     (asc ''amravati'', [asc ''amravati'', [0x905, 0x92E, 0x930, 0x93E, 0x935, 0x924, 0x940]]),
     (asc ''dhule'', [asc ''dhule'', [0x927, 0x941, 0x933, 0x947]]),
     (asc ''chandrapur'', [asc ''chandrapur'', [0x91A, 0x902, 0x926, 0x94D, 0x930, 0x92A, 0x942, 0x930]]),
     (asc ''ratnagiri'', [asc ''ratnagiri'', [0x930, 0x924, 0x94D, 0x928, 0x93E, 0x917, 0x93F, 0x930, 0x940]]),
     (asc ''baramati'', [asc ''baramati'', [0x92C, 0x93E, 0x930, 0x93E, 0x92E, 0x924, 0x940]]),
     (asc ''plots'', [asc ''plots'', asc ''plot'', asc ''land'', [0x91C, 0x92E, 0x940, 0x928], [0x92A, 0x94D, 0x932, 0x949, 0x91F], [0x92D, 0x942, 0x916, 0x902, 0x921]]),
     (asc ''industrial'', [asc ''industrial'', [0x914, 0x926, 0x94D, 0x92F, 0x94B, 0x917, 0x93F, 0x915], asc ''industry'', asc ''manufacturing'']),
     (asc ''commercial'', [asc ''commercial'', [0x915, 0x949, 0x92E, 0x930, 0x94D, 0x936, 0x93F, 0x92F, 0x932], asc ''business'', asc ''office'']),
     (asc ''residential'', [asc ''residential'', [0x930, 0x939, 0x93F, 0x935, 0x93E, 0x938, 0x940], asc ''housing'', asc ''home'']),
     (asc ''price'', [asc ''price'', asc ''cost'', asc ''rate'', asc ''rates'', [0x915, 0x93F, 0x902, 0x92E, 0x924], [0x926, 0x930], [0x92E, 0x942, 0x932, 0x94D, 0x92F]]),
     (asc ''cheap'', [asc ''cheap'', asc ''low'', asc ''affordable'', asc ''budget'', [0x938, 0x94D, 0x935, 0x938, 0x94D, 0x924], [0x915, 0x92E, 0x940]]),
     (asc ''expensive'', [asc ''expensive'', asc ''high'', asc ''costly'', [0x92E, 0x939, 0x93E, 0x917], [0x91C, 0x93E, 0x938, 0x94D, 0x924]]),
     (asc ''available'', [asc ''available'', [0x909, 0x92A, 0x932, 0x92C, 0x94D, 0x927], asc ''aahet'', asc ''aahe'', asc ''have'', asc ''got'']),
     (asc ''show'', [asc ''show'', [0x926, 0x93E, 0x916, 0x935, 0x93E], asc ''dakhav'', asc ''display'', asc ''list'']),
     (asc ''find'', [asc ''find'', asc ''search'', asc ''look'', [0x936, 0x94B, 0x927], asc ''shodh'']),
     (asc ''get'', [asc ''get'', asc ''give'', [0x926, 0x94D, 0x92F, 0x93E], asc ''dya'', asc ''provide'']),
     (asc ''what'', [asc ''what'', asc ''ka'', asc ''kay'', [0x915, 0x93E, 0x92F], asc ''kay'', asc ''which'']),
     (asc ''where'', [asc ''where'', asc ''kuthe'', [0x915, 0x941, 0x920, 0x947], asc ''location'']),
     (asc ''how'', [asc ''how'', asc ''kase'', [0x915, 0x938, 0x947], asc ''method'']),
     (asc ''when'', [asc ''when'', asc ''kadhi'', [0x915, 0x927, 0x940], asc ''time'']),
     (asc ''ro'', [asc ''ro'', asc ''regional office'', [0x92A, 0x94D, 0x930, 0x93E, 0x926, 0x947, 0x936, 0x93F, 0x915, 0x20, 0x915, 0x93E, 0x930, 0x94D, 0x92F, 0x93E, 0x932, 0x92F]]),
     (asc ''office'', [asc ''office'', [0x915, 0x93E, 0x930, 0x94D, 0x92F, 0x93E, 0x932, 0x92F], asc ''kendr''])]"

definition intent_patterns :: "(ustr \<times> ustr list) list" where
  "intent_patterns =
    [(asc ''availability'', [asc ''available'', asc ''aahet'', asc ''aahe'', asc ''have'', asc ''got'', [0x909, 0x92A, 0x932, 0x92C, 0x94D, 0x927]]),
     (asc ''price_inquiry'', [asc ''price'', asc ''cost'', asc ''rate'', asc ''rates'', [0x915, 0x93F, 0x902, 0x92E, 0x924], [0x926, 0x930], asc ''kay'', asc ''what'']),
     (asc ''location_search'', [asc ''in'', asc ''madhe'', asc ''madhye'', asc ''at'', [0x92E, 0x927, 0x94D, 0x92F, 0x947], asc ''location'']),
     (asc ''property_type'', [asc ''plots'', asc ''industrial'', asc ''commercial'', asc ''residential'', [0x92A, 0x94D, 0x932, 0x949, 0x91F]]),
     (asc ''comparison'', [asc ''compare'', asc ''vs'', asc ''versus'', asc ''difference'', [0x924, 0x941, 0x932, 0x928, 0x93E]]),
     (asc ''cheapest'', [asc ''cheap'', asc ''lowest'', asc ''minimum'', [0x938, 0x94D, 0x935, 0x938, 0x94D, 0x924], [0x915, 0x92E, 0x940]]),
     (asc ''largest'', [asc ''big'', asc ''large'', asc ''maximum'', [0x92E, 0x94B, 0x920, 0x947], [0x91C, 0x93E, 0x938, 0x94D, 0x924]])]"

definition spelling_variations :: "(ustr \<times> ustr list) list" where
  "spelling_variations =
    [(asc ''bhusaval'', [asc ''bhusawal'', asc ''bhusawad'', asc ''bhusawal'', asc ''bhusaval'']),
     (asc ''jalgaon'', [asc ''jalgaon'', asc ''jalgon'', asc ''jalgaun'']),
     (asc ''pune'', [asc ''pune'', asc ''punee'', asc ''puna'']),
     (asc ''mumbai'', [asc ''mumbai'', asc ''mumbay'', asc ''bombay'']),
     (asc ''chandrapur'', [asc ''chandrapur'', asc ''chandrapur'', asc ''chandrapur'']),
     (asc ''nagpur'', [asc ''nagpur'', asc ''nagpur'', asc ''nagpur'']),
     (asc ''aurangabad'', [asc ''aurangabad'', asc ''aurangabad'', asc ''aurangabad'']),
     (asc ''amravati'', [asc ''amravati'', asc ''amravati'', asc ''amravati'']),
     (asc ''dhule'', [asc ''dhule'', asc ''dhule'', asc ''dhule'']),
     (asc ''ratnagiri'', [asc ''ratnagiri'', asc ''ratnagiri'', asc ''ratnagiri''])]"
section \<open>The methods of \<open>SmartQueryHandler\<close>\<close>

subsection \<open>\<open>_extract_locations\<close>\<close>

text \<open>
  One attempt of the pattern \<open>ro\s+(\w+)\<close> at the head of the text: the letters \<open>ro\<close>, the
  longest run of white space, the longest run of word characters, both non-empty.  No
  shorter run of white space can succeed, since a white-space character is not a word
  character.  The result is the captured group and the text behind the match.
\<close>

definition ro_match_at :: "unicode \<Rightarrow> ustr \<Rightarrow> (ustr \<times> ustr) option" where
  "ro_match_at U s =
     (case s of
        c1 # c2 # t \<Rightarrow>
          if c1 = 114 \<and> c2 = 111 then
            (let gap = takeWhile is_space t;
                 t' = dropWhile is_space t;
                 word = takeWhile (is_word U) t'
             in if gap \<noteq> [] \<and> word \<noteq> [] then Some (word, dropWhile (is_word U) t') else None)
          else None
      | _ \<Rightarrow> None)"

lemma ro_match_at_shorter:
  "ro_match_at U s = Some (w, rest) \<Longrightarrow> length rest < length s"
proof -
  assume a: "ro_match_at U s = Some (w, rest)"
  then obtain c1 c2 t where s: "s = c1 # c2 # t"
    by (cases s; cases "tl s") (auto simp: ro_match_at_def)
  from a s have "rest = dropWhile (is_word U) (dropWhile is_space t)"
    by (auto simp: ro_match_at_def Let_def split: if_splits)
  moreover have "length (dropWhile (is_word U) (dropWhile is_space t)) \<le> length t"
    by (meson length_dropWhile_le le_trans)
  ultimately show ?thesis using s by simp
qed

text \<open>\<open>re.findall\<close>: the matches from left to right, each search starting behind the last match.\<close>

function ro_findall :: "unicode \<Rightarrow> ustr \<Rightarrow> ustr list" where
  "ro_findall U [] = []"
| "ro_findall U (c # s) =
     (case ro_match_at U (c # s) of
        Some (word, rest) \<Rightarrow> word # ro_findall U rest
      | None \<Rightarrow> ro_findall U s)"
  by pat_completeness auto
termination
  by (relation "measure (\<lambda>(U, s). length s)") (auto dest: ro_match_at_shorter)

definition extract_locations :: "unicode \<Rightarrow> ustr \<Rightarrow> (ustr \<times> ustr) list" where
  "extract_locations U query =
     (let query_lower = py_lower U query;
          cities = filter (\<lambda>(city, ro). py_in city query_lower) region_mappings;
          areas = filter (\<lambda>(area, ro). py_in area query_lower) area_to_ro_mappings;
          ro_matches = ro_findall U query_lower;
          named = concat (map (\<lambda>ro_match.
                    filter (\<lambda>(city, ro). py_in ro_match (py_lower U ro)) region_mappings)
                    ro_matches)
      in cities @ areas @ named)"

subsection \<open>\<open>_handle_spelling_mistakes\<close>\<close>

text \<open>
  The membership test reads the lower-cased text of the call's argument throughout; the
  replacement works on the text as corrected so far.
\<close>

definition correct_variation :: "ustr \<Rightarrow> ustr \<Rightarrow> ustr \<Rightarrow> ustr \<Rightarrow> ustr" where
  "correct_variation query_lower correct_word corrected_query variation =
     (if py_in variation query_lower \<and> variation \<noteq> correct_word
      then py_replace corrected_query variation correct_word
      else corrected_query)"

definition handle_spelling_mistakes :: "unicode \<Rightarrow> ustr \<Rightarrow> ustr" where
  "handle_spelling_mistakes U query =
     (let query_lower = py_lower U query
      in foldl (\<lambda>corrected_query (correct_word, variations).
                  foldl (correct_variation query_lower correct_word) corrected_query variations)
               query spelling_variations)"

subsection \<open>\<open>_handle_mixed_language\<close>\<close>

text \<open>
  The body of the loop over the words: the replacement for one word, and whether it came
  from the transliteration table.  The two indexed reads are the ones that can raise.
\<close>

definition normalize_word :: "unicode \<Rightarrow> ustr \<Rightarrow> py_error + (ustr \<times> bool)" where
  "normalize_word U word =
     (let word_lower = py_lower U word in
      if dict_has marathi_transliteration_tokens word_lower then
        (case dict_index marathi_transliteration_tokens word_lower of
           Inl e \<Rightarrow> Inl e
         | Inr gloss \<Rightarrow> Inr (gloss, True))
      else
        (case find (\<lambda>(root_word, synonyms). word_lower \<in> set synonyms) semantic_synonyms of
           Some (root_word, synonyms) \<Rightarrow> Inr (root_word, False)
         | None \<Rightarrow>
             if dict_has mixed_language_mappings word_lower then
               (case dict_index mixed_language_mappings word_lower of
                  Inl e \<Rightarrow> Inl e
                | Inr v \<Rightarrow> Inr (v, False))
             else Inr (word, False)))"

fun normalize_words :: "unicode \<Rightarrow> ustr list \<Rightarrow> py_error + (ustr list \<times> bool)" where
  "normalize_words U [] = Inr ([], False)"
| "normalize_words U (word # words) =
     (case normalize_word U word of
        Inl e \<Rightarrow> Inl e
      | Inr (w, t) \<Rightarrow>
          (case normalize_words U words of
             Inl e \<Rightarrow> Inl e
           | Inr (ws, ts) \<Rightarrow> Inr (w # ws, t \<or> ts)))"

text \<open>
  The method returns the joined words and stores the flag in the handler's field
  \<open>_last_query_was_transliteration\<close>, its only mutable state; the model returns both.
\<close>

definition handle_mixed_language :: "unicode \<Rightarrow> ustr \<Rightarrow> py_error + (ustr \<times> bool)" where
  "handle_mixed_language U query =
     (case normalize_words U (py_split query) of
        Inl e \<Rightarrow> Inl e
      | Inr (improved_words, detected) \<Rightarrow> Inr (py_join (asc '' '') improved_words, detected))"

subsection \<open>\<open>_detect_user_intent\<close> and \<open>_extract_root_concepts\<close>\<close>

definition detect_user_intent :: "unicode \<Rightarrow> ustr \<Rightarrow> ustr list" where
  "detect_user_intent U query =
     (let query_lower = py_lower U query
      in map fst (filter (\<lambda>(intent, patterns). list_ex (\<lambda>pattern. py_in pattern query_lower) patterns)
                    intent_patterns))"

record concepts =
  locations :: "ustr list"
  property_types :: "ustr list"
  price_related :: "ustr list"
  availability_related :: "ustr list"
  intents :: "ustr list"

text \<open>One of the four loops over \<open>semantic_synonyms\<close>: the roots of the given family with a synonym in the text.\<close>

definition roots_in :: "ustr list \<Rightarrow> ustr \<Rightarrow> ustr list" where
  "roots_in family query_lower =
     map fst (filter (\<lambda>(root_word, synonyms).
                root_word \<in> set family \<and> list_ex (\<lambda>synonym. py_in synonym query_lower) synonyms)
              semantic_synonyms)"

definition extract_root_concepts :: "unicode \<Rightarrow> ustr \<Rightarrow> concepts" where
  "extract_root_concepts U query =
     (let query_lower = py_lower U query in
      \<lparr>locations = roots_in
         [asc ''pune'', asc ''mumbai'', asc ''bhusaval'', asc ''jalgaon'', asc ''nagpur'',
          asc ''aurangabad'', asc ''thane'', asc ''amravati'', asc ''dhule'', asc ''chandrapur'',
          asc ''ratnagiri'', asc ''baramati''] query_lower,
       property_types = roots_in
         [asc ''plots'', asc ''industrial'', asc ''commercial'', asc ''residential''] query_lower,
       price_related = roots_in [asc ''price'', asc ''cheap'', asc ''expensive''] query_lower,
       availability_related = roots_in
         [asc ''available'', asc ''show'', asc ''find'', asc ''get''] query_lower,
       intents = detect_user_intent U query\<rparr>)"

subsection \<open>\<open>improve_query\<close>\<close>

text \<open>Step 5: the offices of the locations found, each office string once.\<close>

definition ro_context :: "(ustr \<times> ustr) list \<Rightarrow> ustr list" where
  "ro_context locs =
     foldl (\<lambda>improvements (location, ro).
              if ro \<notin> set improvements then improvements @ [ro] else improvements) [] locs"

text \<open>Step 6: the label of every property type found that the table knows.\<close>

fun property_context :: "ustr list \<Rightarrow> ustr list \<Rightarrow> py_error + ustr list" where
  "property_context improvements [] = Inr improvements"
| "property_context improvements (prop_type # rest) =
     (if dict_has property_mappings prop_type then
        (case dict_index property_mappings prop_type of
           Inl e \<Rightarrow> Inl e
         | Inr label \<Rightarrow> property_context (improvements @ [label]) rest)
      else property_context improvements rest)"

text \<open>Step 7.\<close>

definition price_phrase :: "ustr \<Rightarrow> ustr" where
  "price_phrase price_term =
     (if price_term = asc ''cheap'' then asc ''low cost affordable budget''
      else if price_term = asc ''expensive'' then asc ''high cost premium''
      else asc ''price rate cost'')"

text \<open>Step 9: three of the intents have a phrase.\<close>

definition intent_phrase :: "ustr \<Rightarrow> ustr list" where
  "intent_phrase intent =
     (if intent = asc ''cheapest'' then [asc ''minimum lowest affordable'']
      else if intent = asc ''largest'' then [asc ''maximum biggest'']
      else if intent = asc ''comparison'' then [asc ''compare different options'']
      else [])"

text \<open>Step 10: the test that decides whether the MIDC context is added.\<close>

definition relevant :: "concepts \<Rightarrow> bool" where
  "relevant c \<longleftrightarrow>
     locations c \<noteq> [] \<or> property_types c \<noteq> [] \<or> price_related c \<noteq> [] \<or>
     availability_related c \<noteq> []"

text \<open>Steps 5 to 10, from the concepts of step 1 and the locations of step 4.\<close>

definition improvements_of :: "concepts \<Rightarrow> (ustr \<times> ustr) list \<Rightarrow> py_error + ustr list" where
  "improvements_of c locs =
     (case property_context (ro_context locs) (property_types c) of
        Inl e \<Rightarrow> Inl e
      | Inr improvements \<Rightarrow>
          Inr (improvements
               @ map price_phrase (price_related c)
               @ (if availability_related c \<noteq> [] then [asc ''available plots land''] else [])
               @ concat (map intent_phrase (intents c))
               @ (if relevant c then [asc ''MIDC Industrial Area''] else [])))"

text \<open>Steps 1 to 10: the corrected query and the list \<open>improvements\<close>.\<close>

definition improve_steps :: "unicode \<Rightarrow> ustr \<Rightarrow> py_error + (ustr \<times> ustr list)" where
  "improve_steps U query =
     (let c = extract_root_concepts U query in
      case handle_mixed_language U query of
        Inl e \<Rightarrow> Inl e
      | Inr (mixed_query, detected) \<Rightarrow>
          (let corrected_query = handle_spelling_mistakes U mixed_query;
               locs = extract_locations U corrected_query
           in case improvements_of c locs of
                Inl e \<Rightarrow> Inl e
              | Inr improvements \<Rightarrow> Inr (corrected_query, improvements)))"

text \<open>Step 11.\<close>

definition improve_query :: "unicode \<Rightarrow> ustr \<Rightarrow> py_error + ustr" where
  "improve_query U query =
     (case improve_steps U query of
        Inl e \<Rightarrow> Inl e
      | Inr (corrected_query, improvements) \<Rightarrow>
          Inr (if improvements \<noteq> []
               then corrected_query @ asc '' '' @ py_join (asc '' '') improvements
               else corrected_query))"

subsection \<open>\<open>should_respond_in_marathi\<close>\<close>

definition marathi_patterns :: "ustr list" where
  "marathi_patterns =
     [asc ''madhe'', asc ''madhye'', asc ''aahet'', asc ''aahe'', asc ''kay'', asc ''ka'',
      asc ''kuthe'', asc ''dya'', asc ''dakhav'', asc ''shodh'', asc ''kimti'', asc ''dar'',
      asc ''swast'', asc ''mahag'']"

definition has_devanagari :: "ustr \<Rightarrow> bool" where
  "has_devanagari query = list_ex (\<lambda>char. 0x900 \<le> char \<and> char \<le> 0x97F) query"

definition marathi_tokens_found :: "unicode \<Rightarrow> ustr \<Rightarrow> nat" where
  "marathi_tokens_found U query =
     length (filter (\<lambda>token. py_in token (py_lower U query)) (map fst marathi_transliteration_tokens))"

definition pattern_count :: "unicode \<Rightarrow> ustr \<Rightarrow> nat" where
  "pattern_count U query =
     length (filter (\<lambda>pattern. py_in pattern (py_lower U query)) marathi_patterns)"

definition should_respond_in_marathi :: "unicode \<Rightarrow> ustr \<Rightarrow> bool" where
  "should_respond_in_marathi U query =
     (if has_devanagari query then True
      else if marathi_tokens_found U query \<ge> 2 then True
      else if pattern_count U query \<ge> 2 then True
      else False)"

text \<open>
  A character database that knows nothing beyond ASCII.  It fixes the parameter where a
  statement is evaluated on ASCII text, which never consults it.
\<close>

definition ascii_only :: unicode where
  "ascii_only = \<lparr>lower_full = (\<lambda>c. [c]), alnum = (\<lambda>c. False)\<rparr>"

section \<open>Evaluation and text lemmas\<close>

lemma prefix_Cons_eval:
  "prefix (x # xs) [] = False"
  "prefix (x # xs) (y # ys) = (x = y \<and> prefix xs ys)"
  by auto

lemma py_in_sublist: "py_in sub s \<longleftrightarrow> sublist sub s"
proof (induction s)
  case Nil
  show ?case by auto
next
  case (Cons c s)
  show ?case
  proof (cases sub)
    case Nil
    then show ?thesis by simp
  next
    case (Cons a as)
    then show ?thesis using Cons.IH by (simp add: sublist_Cons_right)
  qed
qed

lemma py_in_append: "py_in sub s \<Longrightarrow> py_in sub (a @ s @ b)"
  unfolding py_in_sublist
  by (meson sublist_appendI sublist_order.order_trans)

lemma py_lower_append: "py_lower U (a @ b) = py_lower U a @ py_lower U b"
  by (simp add: py_lower_def)

lemma filter_length_mono:
  "(\<And>x. P x \<Longrightarrow> Q x) \<Longrightarrow> length (filter P xs) \<le> length (filter Q xs)"
  by (induction xs) auto

lemma lower_plots_available:
  "py_lower U (asc ''plots available in pune'') = asc ''plots available in pune''"
  by (simp add: py_lower_def lower_char_def asc_def)

lemma tokens_plots_available:
  "filter (\<lambda>token. py_in token (asc ''plots available in pune''))
     (map fst marathi_transliteration_tokens) =
   [asc ''la'', asc ''le'', asc ''plot'', asc ''plots'']"
  by (simp add: marathi_transliteration_tokens_def asc_def prefix_Cons_eval)

section \<open>The language preference\<close>

text \<open>
  C1, as the source decides it.  For the query \<open>plots available in pune\<close> the method
  \<open>should_respond_in_marathi\<close> returns \<open>True\<close>.  The query has no Devanagari character,
  but four keys of the transliteration table occur in it as substrings, \<open>la\<close> and \<open>le\<close>
  inside \<open>available\<close> and \<open>plot\<close> and \<open>plots\<close> inside \<open>plots\<close>, so the count of the second
  rule is 4 and reaches the threshold 2.
\<close>

theorem plots_available_in_pune_is_marathi:
  "\<not> has_devanagari (asc ''plots available in pune'') \<and>
   marathi_tokens_found U (asc ''plots available in pune'') = 4 \<and>
   should_respond_in_marathi U (asc ''plots available in pune'') = True"
proof -
  have "marathi_tokens_found U (asc ''plots available in pune'') = 4"
    unfolding marathi_tokens_found_def lower_plots_available tokens_plots_available by simp
  moreover have "\<not> has_devanagari (asc ''plots available in pune'')"
    by (simp add: has_devanagari_def asc_def)
  ultimately show ?thesis
    by (simp add: should_respond_in_marathi_def)
qed

text \<open>
  C1, as the claim states it: the result for \<open>plots available in pune\<close> would be \<open>False\<close>.
  It is not.
\<close>

theorem plots_available_in_pune_not_false:
  "should_respond_in_marathi ascii_only (asc ''plots available in pune'') \<noteq> False"
proof -
  have "marathi_tokens_found ascii_only (asc ''plots available in pune'') = 4"
    unfolding marathi_tokens_found_def lower_plots_available tokens_plots_available by simp
  then show ?thesis
    by (simp add: should_respond_in_marathi_def)
qed

text \<open>
  C8.  A query with a character of the Devanagari block, U+0900 to U+097F, gets the answer
  \<open>True\<close> from \<open>should_respond_in_marathi\<close>, whatever else it contains.
\<close>

theorem devanagari_prefers_marathi:
  "c \<in> set query \<Longrightarrow> 0x900 \<le> c \<Longrightarrow> c \<le> 0x97F \<Longrightarrow> should_respond_in_marathi U query = True"
  by (auto simp: should_respond_in_marathi_def has_devanagari_def list_ex_iff)

theorem devanagari_prefers_marathi_witness:
  "(0x92A::nat) \<in> set (asc ''plots in '' @ [0x92A, 0x941, 0x923, 0x947]) \<and>
   (0x900::nat) \<le> 0x92A \<and> (0x92A::nat) \<le> 0x97F \<and>
   should_respond_in_marathi ascii_only (asc ''plots in '' @ [0x92A, 0x941, 0x923, 0x947]) = True"
proof -
  have m: "(0x92A::nat) \<in> set (asc ''plots in '' @ [0x92A, 0x941, 0x923, 0x947])"
    by (simp add: asc_def)
  have lo: "(0x900::nat) \<le> 0x92A" by simp
  have hi: "(0x92A::nat) \<le> 0x97F" by simp
  show ?thesis
    using m lo hi devanagari_prefers_marathi [OF m lo hi, of ascii_only] by simp
qed

text \<open>
  C10.  The answer \<open>True\<close> survives any text put before and behind the query: each of the
  three rules asks for the presence of characters or substrings, and what is present in a
  text is present in every text that contains it.
\<close>

theorem marathi_preference_monotone:
  "should_respond_in_marathi U q = True \<Longrightarrow> should_respond_in_marathi U (s @ q @ t) = True"
proof -
  assume a: "should_respond_in_marathi U q = True"
  have sub: "\<And>k. py_in k (py_lower U q) \<Longrightarrow> py_in k (py_lower U (s @ q @ t))"
    by (simp add: py_lower_append py_in_append)
  have tok: "marathi_tokens_found U q \<le> marathi_tokens_found U (s @ q @ t)"
    unfolding marathi_tokens_found_def by (rule filter_length_mono) (rule sub)
  have pat: "pattern_count U q \<le> pattern_count U (s @ q @ t)"
    unfolding pattern_count_def by (rule filter_length_mono) (rule sub)
  have dev: "has_devanagari q \<Longrightarrow> has_devanagari (s @ q @ t)"
    by (auto simp: has_devanagari_def list_ex_iff)
  from a consider "has_devanagari q" | "2 \<le> marathi_tokens_found U q" | "2 \<le> pattern_count U q"
    by (auto simp: should_respond_in_marathi_def split: if_splits)
  then show ?thesis
  proof cases
    case 1
    then show ?thesis using dev by (simp add: should_respond_in_marathi_def)
  next
    case 2
    then show ?thesis using tok by (simp add: should_respond_in_marathi_def)
  next
    case 3
    then show ?thesis using pat by (simp add: should_respond_in_marathi_def)
  qed
qed

lemma lower_madhe_aahet: "py_lower U (asc ''madhe aahet'') = asc ''madhe aahet''"
  by (simp add: py_lower_def lower_char_def asc_def)

lemma lower_kuthe_madhe_aahet:
  "py_lower U (asc ''kuthe '' @ asc ''madhe aahet'' @ asc '' pune'') = asc ''kuthe madhe aahet pune''"
  by (simp add: py_lower_def lower_char_def asc_def)

theorem marathi_preference_monotone_witness:
  "should_respond_in_marathi ascii_only (asc ''madhe aahet'') = True \<and>
   should_respond_in_marathi ascii_only (asc ''kuthe '' @ asc ''madhe aahet'' @ asc '' pune'') = True"
proof -
  have "filter (\<lambda>token. py_in token (asc ''madhe aahet'')) (map fst marathi_transliteration_tokens)
        = [asc ''madhe'', asc ''aahet'', asc ''aahe'', asc ''ahe'']"
    by (simp add: marathi_transliteration_tokens_def asc_def prefix_Cons_eval)
  then have "marathi_tokens_found ascii_only (asc ''madhe aahet'') = 4"
    unfolding marathi_tokens_found_def lower_madhe_aahet by simp
  moreover have "\<not> has_devanagari (asc ''madhe aahet'')"
    by (simp add: has_devanagari_def asc_def)
  ultimately have h: "should_respond_in_marathi ascii_only (asc ''madhe aahet'') = True"
    by (simp add: should_respond_in_marathi_def)
  show ?thesis
    using h marathi_preference_monotone [OF h, of "asc ''kuthe ''" "asc '' pune''"] by simp
qed

section \<open>No lookup raises\<close>

lemma dict_index_has: "dict_has d k \<Longrightarrow> \<exists>v. dict_index d k = Inr v"
proof -
  assume "dict_has d k"
  then have "k \<in> fst ` set d" by (simp add: dict_has_def)
  then obtain v where "map_of d k = Some v"
    by (metis domD dom_map_of_conv_image_fst)
  then show ?thesis by (simp add: dict_index_def)
qed

lemma normalize_word_total: "\<exists>r. normalize_word U word = Inr r"
proof (cases "dict_has marathi_transliteration_tokens (py_lower U word)")
  case yes: True
  from dict_index_has [OF yes] obtain gloss
    where g: "dict_index marathi_transliteration_tokens (py_lower U word) = Inr gloss"
    by (rule exE)
  show ?thesis
    unfolding normalize_word_def Let_def by (simp only: yes g if_True sum.case) blast
next
  case no: False
  show ?thesis
  proof (cases "find (\<lambda>(root_word, synonyms). py_lower U word \<in> set synonyms) semantic_synonyms")
    case (Some p)
    obtain root_word synonyms where p: "p = (root_word, synonyms)" by (cases p)
    show ?thesis
      unfolding normalize_word_def Let_def
      by (simp only: no Some p if_False option.case prod.case) blast
  next
    case None
    show ?thesis
    proof (cases "dict_has mixed_language_mappings (py_lower U word)")
      case yes: True
      from dict_index_has [OF yes] obtain v
        where v: "dict_index mixed_language_mappings (py_lower U word) = Inr v"
        by (rule exE)
      show ?thesis
        unfolding normalize_word_def Let_def
        by (simp only: no None yes v if_True if_False option.case sum.case) blast
    next
      case False
      show ?thesis
        unfolding normalize_word_def Let_def
        by (simp only: no None False if_False option.case) blast
    qed
  qed
qed

lemma normalize_words_total: "\<exists>r. normalize_words U words = Inr r"
proof (induction words)
  case Nil
  show ?case by (rule exI [of _ "([], False)"]) simp
next
  case (Cons word words)
  obtain r where "normalize_word U word = Inr r"
    using normalize_word_total by blast
  moreover obtain w t where "r = (w, t)" by (cases r)
  moreover obtain rs where "normalize_words U words = Inr rs"
    using Cons.IH by blast
  moreover obtain ws ts where "rs = (ws, ts)" by (cases rs)
  ultimately show ?case by simp
qed

lemma handle_mixed_language_total: "\<exists>r. handle_mixed_language U query = Inr r"
proof -
  obtain r where "normalize_words U (py_split query) = Inr r"
    using normalize_words_total by blast
  moreover obtain ws t where "r = (ws, t)" by (cases r)
  ultimately show ?thesis by (simp add: handle_mixed_language_def)
qed

lemma property_context_total: "\<exists>r. property_context improvements props = Inr r"
proof (induction props arbitrary: improvements)
  case Nil
  show ?case by simp
next
  case (Cons prop_type rest)
  show ?case
  proof (cases "dict_has property_mappings prop_type")
    case yes: True
    from dict_index_has [OF yes] obtain label
      where l: "dict_index property_mappings prop_type = Inr label"
      by (rule exE)
    show ?thesis
      using Cons.IH [of "improvements @ [label]"]
      by (simp only: property_context.simps yes l if_True sum.case)
  next
    case False
    show ?thesis
      using Cons.IH [of improvements]
      by (simp only: property_context.simps False if_False)
  qed
qed

lemma improvements_of_total: "\<exists>r. improvements_of c locs = Inr r"
proof -
  obtain r where "property_context (ro_context locs) (property_types c) = Inr r"
    using property_context_total by blast
  then show ?thesis by (simp add: improvements_of_def)
qed

lemma improve_steps_total: "\<exists>r. improve_steps U query = Inr r"
proof -
  obtain m t where m: "handle_mixed_language U query = Inr (m, t)"
    using handle_mixed_language_total by (metis surj_pair)
  obtain r where
    "improvements_of (extract_root_concepts U query)
       (extract_locations U (handle_spelling_mistakes U m)) = Inr r"
    using improvements_of_total by blast
  then show ?thesis using m by (simp add: improve_steps_def Let_def)
qed

text \<open>
  C9.  \<open>improve_query\<close> returns a string for every query: the three indexed reads of a
  table, the only operations of the method and its helpers that can raise, each stand
  behind a test that the key is in the table.  \<open>should_respond_in_marathi\<close> reads no table
  by index at all, so its model has no error to return and gives a truth value for every
  query.
\<close>

theorem improve_query_never_raises:
  "(\<exists>improved_query. improve_query U query = Inr improved_query) \<and>
   (\<exists>answer. should_respond_in_marathi U query = answer)"
proof -
  obtain r where "improve_steps U query = Inr r"
    using improve_steps_total by blast
  moreover obtain corrected_query improvements where "r = (corrected_query, improvements)"
    by (cases r)
  ultimately show ?thesis by (simp add: improve_query_def)
qed

section \<open>The normalizer\<close>

lemma normalize_word_transliteration:
  assumes "map_of marathi_transliteration_tokens (py_lower U word) = Some gloss"
  shows "normalize_word U word = Inr (gloss, True)"
proof -
  have "py_lower U word \<in> fst ` set marathi_transliteration_tokens"
    using assms by (metis domI dom_map_of_conv_image_fst)
  then have "dict_has marathi_transliteration_tokens (py_lower U word)"
    by (simp add: dict_has_def)
  then show ?thesis using assms by (simp add: normalize_word_def dict_index_def)
qed

lemma normalize_words_transliteration:
  "normalize_words U words = Inr (ws, t) \<Longrightarrow>
   length ws = length words \<and>
   (\<forall>i gloss. i < length words \<longrightarrow>
      map_of marathi_transliteration_tokens (py_lower U (words ! i)) = Some gloss \<longrightarrow>
      ws ! i = gloss)"
proof (induction words arbitrary: ws t)
  case Nil
  then show ?case by simp
next
  case (Cons word words)
  obtain w tw where w: "normalize_word U word = Inr (w, tw)"
    using normalize_word_total by (metis surj_pair)
  obtain ws' ts where ws': "normalize_words U words = Inr (ws', ts)"
    using normalize_words_total by (metis surj_pair)
  from Cons.prems w ws' have eq: "ws = w # ws'" by simp
  have hd: "w = gloss"
    if "map_of marathi_transliteration_tokens (py_lower U word) = Some gloss" for gloss
    using w normalize_word_transliteration [OF that] by simp
  from Cons.IH [OF ws'] have ih:
    "length ws' = length words"
    "\<And>i gloss. i < length words \<Longrightarrow>
       map_of marathi_transliteration_tokens (py_lower U (words ! i)) = Some gloss \<Longrightarrow>
       ws' ! i = gloss"
    by auto
  show ?case
  proof (intro conjI allI impI)
    show "length ws = length (word # words)" using eq ih(1) by simp
  next
    fix i gloss
    assume i: "i < length (word # words)"
      and g: "map_of marathi_transliteration_tokens (py_lower U ((word # words) ! i)) = Some gloss"
    show "ws ! i = gloss"
    proof (cases i)
      case 0
      then show ?thesis using eq hd g by simp
    next
      case (Suc j)
      then show ?thesis using eq ih(2) [of j gloss] i g by simp
    qed
  qed
qed

text \<open>
  C6.  In \<open>_handle_mixed_language\<close> a word whose lower-cased form is a key of the
  transliteration table is replaced by the gloss of that table, at its place among the
  words of the result, whatever the synonym groups and the mixed-language table hold for
  it; these are consulted only for a word that is not such a key.
\<close>

theorem transliteration_takes_precedence:
  assumes "i < length (py_split query)"
    and "map_of marathi_transliteration_tokens (py_lower U (py_split query ! i)) = Some gloss"
  shows "\<exists>improved_words detected.
           handle_mixed_language U query = Inr (py_join (asc '' '') improved_words, detected) \<and>
           length improved_words = length (py_split query) \<and>
           improved_words ! i = gloss"
proof -
  obtain ws t where n: "normalize_words U (py_split query) = Inr (ws, t)"
    using normalize_words_total by (metis surj_pair)
  from normalize_words_transliteration [OF n] assms
  have "length ws = length (py_split query)" "ws ! i = gloss" by auto
  moreover have "handle_mixed_language U query = Inr (py_join (asc '' '') ws, t)"
    using n by (simp add: handle_mixed_language_def)
  ultimately show ?thesis by blast
qed

lemma split_plots_aahet: "py_split (asc ''plots aahet'') = [asc ''plots'', asc ''aahet'']"
  by (simp add: py_split_def asc_def is_space_def)

lemma lower_aahet: "py_lower U (asc ''aahet'') = asc ''aahet''"
  by (simp add: py_lower_def lower_char_def asc_def)

lemma gloss_aahet: "map_of marathi_transliteration_tokens (asc ''aahet'') = Some (asc ''are'')"
  by (simp add: marathi_transliteration_tokens_def asc_def)

lemma synonym_aahet: "asc ''aahet'' \<in> set (the (map_of semantic_synonyms (asc ''available'')))"
  by (simp add: semantic_synonyms_def asc_def)

theorem transliteration_takes_precedence_witness:
  "1 < length (py_split (asc ''plots aahet'')) \<and>
   map_of marathi_transliteration_tokens (py_lower ascii_only (py_split (asc ''plots aahet'') ! 1))
     = Some (asc ''are'') \<and>
   asc ''aahet'' \<in> set (the (map_of semantic_synonyms (asc ''available''))) \<and>
   (\<exists>improved_words detected.
      handle_mixed_language ascii_only (asc ''plots aahet'')
        = Inr (py_join (asc '' '') improved_words, detected) \<and>
      length improved_words = length (py_split (asc ''plots aahet'')) \<and>
      improved_words ! 1 = asc ''are'')"
proof -
  have i: "1 < length (py_split (asc ''plots aahet''))"
    by (simp add: split_plots_aahet)
  have g: "map_of marathi_transliteration_tokens
             (py_lower ascii_only (py_split (asc ''plots aahet'') ! 1)) = Some (asc ''are'')"
    by (simp add: split_plots_aahet lower_aahet gloss_aahet)
  show ?thesis
    using i g synonym_aahet transliteration_takes_precedence [OF i g] by simp
qed

section \<open>The query \<open>plots in bhusawal\<close>, step by step\<close>

lemma lower_plots_in_bhusawal:
  "py_lower U (asc ''plots in bhusawal'') = asc ''plots in bhusawal''"
  by (simp add: py_lower_def lower_char_def asc_def)

lemma lower_plots_in_bhusaval:
  "py_lower U (asc ''plots in bhusaval'') = asc ''plots in bhusaval''"
  by (simp add: py_lower_def lower_char_def asc_def)

lemma concepts_plots_in_bhusawal:
  "extract_root_concepts U (asc ''plots in bhusawal'') =
     \<lparr>locations = [asc ''bhusaval''], property_types = [asc ''plots''], price_related = [],
      availability_related = [],
      intents = [asc ''location_search'', asc ''property_type'']\<rparr>"
  unfolding extract_root_concepts_def detect_user_intent_def lower_plots_in_bhusawal Let_def
  by (simp add: roots_in_def semantic_synonyms_def intent_patterns_def asc_def prefix_Cons_eval)

lemma split_plots_in_bhusawal:
  "py_split (asc ''plots in bhusawal'') = [asc ''plots'', asc ''in'', asc ''bhusawal'']"
  by (simp add: py_split_def asc_def is_space_def)

lemma normalize_plots: "normalize_word U (asc ''plots'') = Inr (asc ''plots'', True)"
proof -
  have "py_lower U (asc ''plots'') = asc ''plots''"
    by (simp add: py_lower_def lower_char_def asc_def)
  then show ?thesis
    by (simp add: normalize_word_def dict_has_def dict_index_def
        marathi_transliteration_tokens_def asc_def)
qed

lemma normalize_in: "normalize_word U (asc ''in'') = Inr (asc ''in'', False)"
proof -
  have "py_lower U (asc ''in'') = asc ''in''"
    by (simp add: py_lower_def lower_char_def asc_def)
  then show ?thesis
    by (simp add: normalize_word_def dict_has_def dict_index_def
        marathi_transliteration_tokens_def semantic_synonyms_def mixed_language_mappings_def
        asc_def)
qed

lemma normalize_bhusawal: "normalize_word U (asc ''bhusawal'') = Inr (asc ''bhusaval'', False)"
proof -
  have "py_lower U (asc ''bhusawal'') = asc ''bhusawal''"
    by (simp add: py_lower_def lower_char_def asc_def)
  then show ?thesis
    by (simp add: normalize_word_def dict_has_def dict_index_def
        marathi_transliteration_tokens_def semantic_synonyms_def asc_def)
qed

lemma mixed_plots_in_bhusawal:
  "handle_mixed_language U (asc ''plots in bhusawal'') = Inr (asc ''plots in bhusaval'', True)"
  unfolding handle_mixed_language_def split_plots_in_bhusawal
  by (simp add: normalize_plots normalize_in normalize_bhusawal) (simp add: asc_def)

lemma spelling_plots_in_bhusaval:
  "handle_spelling_mistakes U (asc ''plots in bhusaval'') = asc ''plots in bhusaval''"
  unfolding handle_spelling_mistakes_def lower_plots_in_bhusaval Let_def
  by (simp add: spelling_variations_def correct_variation_def asc_def prefix_Cons_eval)

lemma findall_plots_in_bhusaval: "ro_findall U (asc ''plots in bhusaval'') = []"
  by (simp add: asc_def ro_match_at_def)

lemma locations_plots_in_bhusaval:
  "extract_locations U (asc ''plots in bhusaval'') =
     [(asc ''bhusaval'', asc ''RO Jalgaon''), (asc ''bhusaval'', asc ''RO Jalgaon'')]"
  unfolding extract_locations_def lower_plots_in_bhusaval findall_plots_in_bhusaval Let_def
  by (simp add: region_mappings_def area_to_ro_mappings_def asc_def prefix_Cons_eval)

lemma steps_plots_in_bhusawal:
  "improve_steps U (asc ''plots in bhusawal'') =
     Inr (asc ''plots in bhusaval'',
          [asc ''RO Jalgaon'', asc ''Industrial'', asc ''MIDC Industrial Area''])"
  unfolding improve_steps_def Let_def concepts_plots_in_bhusawal mixed_plots_in_bhusawal
    sum.case prod.case spelling_plots_in_bhusaval locations_plots_in_bhusaval
  by (simp add: improvements_of_def ro_context_def relevant_def intent_phrase_def dict_has_def
      dict_index_def property_mappings_def asc_def)

text \<open>
  C5.  For the query \<open>plots in bhusawal\<close> the method \<open>improve_query\<close> returns
  \<open>plots in bhusaval RO Jalgaon Industrial MIDC Industrial Area\<close>, a text that contains
  \<open>RO Jalgaon\<close>, \<open>Industrial\<close> and \<open>MIDC Industrial Area\<close>.
\<close>

theorem improve_query_plots_in_bhusawal:
  "improve_query U (asc ''plots in bhusawal'') =
     Inr (asc ''plots in bhusaval RO Jalgaon Industrial MIDC Industrial Area'') \<and>
   py_in (asc ''RO Jalgaon'')
     (asc ''plots in bhusaval RO Jalgaon Industrial MIDC Industrial Area'') \<and>
   py_in (asc ''Industrial'')
     (asc ''plots in bhusaval RO Jalgaon Industrial MIDC Industrial Area'') \<and>
   py_in (asc ''MIDC Industrial Area'')
     (asc ''plots in bhusaval RO Jalgaon Industrial MIDC Industrial Area'')"
proof -
  have "improve_query U (asc ''plots in bhusawal'') =
     Inr (asc ''plots in bhusaval RO Jalgaon Industrial MIDC Industrial Area'')"
    unfolding improve_query_def steps_plots_in_bhusawal by (simp add: asc_def)
  moreover have "py_in (asc ''RO Jalgaon'')
     (asc ''plots in bhusaval RO Jalgaon Industrial MIDC Industrial Area'')"
    by (simp add: asc_def prefix_Cons_eval)
  moreover have "py_in (asc ''Industrial'')
     (asc ''plots in bhusaval RO Jalgaon Industrial MIDC Industrial Area'')"
    by (simp add: asc_def prefix_Cons_eval)
  moreover have "py_in (asc ''MIDC Industrial Area'')
     (asc ''plots in bhusaval RO Jalgaon Industrial MIDC Industrial Area'')"
    by (simp add: asc_def prefix_Cons_eval)
  ultimately show ?thesis by blast
qed

end
